theory Spec2Isabelle
  imports Main
begin

section \<open>Python values and their textual form\<close>

text \<open>
  The values that end up in a page: rendered component mappings and the opaque payloads a
  caller hands in (\<open>RawComponent\<close>, \<open>Item.tag\<close>, the keybind and nbt mappings).
  A \<open>dict\<close> is an association list in insertion order with string keys; a \<open>str\<close> is a
  list of code points below 256.
\<close>

datatype pyval =
    PNone
  | PBool bool
  | PInt int
  | PStr string
  | PList "pyval list"
  | PDict "(string \<times> pyval) list"

type_synonym pydict = "(string \<times> pyval) list"

abbreviation sq :: char where "sq \<equiv> CHR 0x27"
abbreviation dq :: char where "dq \<equiv> CHR 0x22"
abbreviation bsl :: char where "bsl \<equiv> CHR 0x5C"

text \<open>\<open>d[k] = v\<close>: an existing key keeps its position, a new key goes last.\<close>

fun dict_set :: "pydict \<Rightarrow> string \<Rightarrow> pyval \<Rightarrow> pydict" where
  "dict_set [] k v = [(k, v)]"
| "dict_set ((k', v') # d) k v =
     (if k' = k then (k', v) # d else (k', v') # dict_set d k v)"

text \<open>\<open>{**a, **b}\<close>: the entries of \<open>b\<close> are stored into a copy of \<open>a\<close>, in order.\<close>

fun dict_merge :: "pydict \<Rightarrow> pydict \<Rightarrow> pydict" where
  "dict_merge a [] = a"
| "dict_merge a ((k, v) # b) = dict_merge (dict_set a k v) b"

definition dict_get :: "pydict \<Rightarrow> string \<Rightarrow> pyval option" where
  "dict_get d k = map_of d k"

subsection \<open>\<open>str\<close> of an integer\<close>

definition digit_char :: "nat \<Rightarrow> char" where
  "digit_char n = char_of (48 + n)"

function digits :: "nat \<Rightarrow> string" where
  "digits n = (if n < 10 then [digit_char n] else digits (n div 10) @ [digit_char (n mod 10)])"
  by pat_completeness auto
termination
  by (relation "measure id") auto

declare digits.simps [simp del]

definition str_int :: "int \<Rightarrow> string" where
  "str_int i = (if i < 0 then CHR ''-'' # digits (nat (- i)) else digits (nat i))"

subsection \<open>\<open>repr\<close> of a string\<close>

definition hex_char :: "nat \<Rightarrow> char" where
  "hex_char n = (if n < 10 then char_of (48 + n) else char_of (87 + n))"

definition hex_escape :: "char \<Rightarrow> string" where
  "hex_escape c = [bsl, CHR ''x'', hex_char (of_char c div 16), hex_char (of_char c mod 16)]"

text \<open>
  Among the code points from 128 to 255 the unprintable ones are the C1 controls, the
  no-break space and the soft hyphen.
\<close>

definition printable_latin1 :: "char \<Rightarrow> bool" where
  "printable_latin1 c = (let n = (of_char c :: nat) in 161 \<le> n \<and> n \<noteq> 173)"

definition escape_char :: "char \<Rightarrow> char \<Rightarrow> string" where
  "escape_char quote c =
     (let n = (of_char c :: nat) in
      if c = quote \<or> c = bsl then [bsl, c]
      else if n = 9 then [bsl, CHR ''t'']
      else if n = 10 then [bsl, CHR ''n'']
      else if n = 13 then [bsl, CHR ''r'']
      else if n < 32 \<or> n = 127 then hex_escape c
      else if n < 127 then [c]
      else if \<not> printable_latin1 c then hex_escape c
      else [c])"

definition choose_quote :: "string \<Rightarrow> char" where
  "choose_quote s = (if sq \<in> set s \<and> dq \<notin> set s then dq else sq)"

definition repr_str :: "string \<Rightarrow> string" where
  "repr_str s = (let quote = choose_quote s in quote # concat (map (escape_char quote) s) @ [quote])"

subsection \<open>\<open>repr\<close> of a value\<close>

fun join :: "string \<Rightarrow> string list \<Rightarrow> string" where
  "join sep [] = []"
| "join sep [x] = x"
| "join sep (x # y # ys) = x @ sep @ join sep (y # ys)"

fun py_repr :: "pyval \<Rightarrow> string" where
  "py_repr PNone = ''None''"
| "py_repr (PBool b) = (if b then ''True'' else ''False'')"
| "py_repr (PInt i) = str_int i"
| "py_repr (PStr s) = repr_str s"
| "py_repr (PList xs) = ''['' @ join '', '' (map py_repr xs) @ '']''"
| "py_repr (PDict kvs) =
     ''{'' @ join '', '' (map (\<lambda>kv. repr_str (fst kv) @ '': '' @ py_repr (snd kv)) kvs) @ ''}''"

section \<open>Errors\<close>

text \<open>
  Every \<open>raise\<close> of the source, and every exception the interpreter raises on the
  paths the source takes, is one constructor:
  \<^item> \<open>ValueError_color t\<close>: \<open>color_error(t)\<close>, the \<open>ValueError\<close> naming the token \<open>t\<close>;
  \<^item> \<open>ValueError_contents\<close>: \<open>ValueError('Invalid contents type: ...')\<close>;
  \<^item> \<open>ValueError_supply\<close>: \<open>ValueError('You must supply a `BaseComponent`')\<close>;
  \<^item> \<open>ValueError_element\<close>: \<open>ValueError('All element must be subclass on `BaseComponent`')\<close>;
  \<^item> \<open>TypeError_mapping\<close>: \<open>**None\<close> in a dict display, "'NoneType' object is not a mapping";
  \<^item> \<open>TypeError_arguments\<close>: a call that leaves out required positional arguments;
  \<^item> \<open>AttributeError_contents\<close>: reading \<open>self._contents\<close> where it was never assigned;
  \<^item> \<open>AttributeError_translate\<close>: calling \<open>translate\<close> on an object that has none.
\<close>

datatype error =
    ValueError_color string
  | ValueError_contents
  | ValueError_supply
  | ValueError_element
  | TypeError_mapping
  | TypeError_arguments
  | AttributeError_contents
  | AttributeError_translate

section \<open>Data model\<close>

record StringFormat =
  bold :: "bool option"
  italic :: "bool option"
  underlined :: "bool option"
  strikethrough :: "bool option"
  obfuscated :: "bool option"
  font :: "string option"

definition opt_entry :: "string \<Rightarrow> pyval option \<Rightarrow> pydict" where
  "opt_entry k v = (case v of None \<Rightarrow> [] | Some x \<Rightarrow> [(k, x)])"

text \<open>\<open>{k: v for k, v in self.__dict__.items() if v is not None}\<close>, fields in declaration order.\<close>

definition StringFormat_to_dict :: "StringFormat \<Rightarrow> pydict" where
  "StringFormat_to_dict s =
     opt_entry ''bold'' (map_option PBool (bold s)) @
     opt_entry ''italic'' (map_option PBool (italic s)) @
     opt_entry ''underlined'' (map_option PBool (underlined s)) @
     opt_entry ''strikethrough'' (map_option PBool (strikethrough s)) @
     opt_entry ''obfuscated'' (map_option PBool (obfuscated s)) @
     opt_entry ''font'' (map_option PStr (font s))"

datatype ClickAction = URL | FILE | RUN_CMD | SUGGEST | CHANGE_PAGE | COPY

fun ClickAction_value :: "ClickAction \<Rightarrow> string" where
  "ClickAction_value URL = ''open_url''"
| "ClickAction_value FILE = ''open_file''"
| "ClickAction_value RUN_CMD = ''run_command''"
| "ClickAction_value SUGGEST = ''suggest_command''"
| "ClickAction_value CHANGE_PAGE = ''change_page''"
| "ClickAction_value COPY = ''copy_to_clipboard''"

datatype HoverAction = TEXT | ITEM | ENTITY

fun HoverAction_value :: "HoverAction \<Rightarrow> string" where
  "HoverAction_value TEXT = ''show_text''"
| "HoverAction_value ITEM = ''show_item''"
| "HoverAction_value ENTITY = ''show_entity''"

record ClickEvent =
  click_action :: ClickAction
  click_value :: string

definition ClickEvent_to_dict :: "ClickEvent \<Rightarrow> pydict" where
  "ClickEvent_to_dict c =
     [(''action'', PStr (ClickAction_value (click_action c))), (''value'', PStr (click_value c))]"

record Item =
  item_id :: string
  item_count :: "int option"
  item_tag :: "pyval option"

definition Item_to_dict :: "Item \<Rightarrow> pydict" where
  "Item_to_dict i =
     [(''id'', PStr (item_id i))] @
     opt_entry ''count'' (map_option PInt (item_count i)) @
     opt_entry ''tag'' (item_tag i)"

text \<open>An entity's \<open>name\<close> is modelled in its \<open>str\<close> form.\<close>

record Entity =
  entity_type :: string
  entity_uuid :: string
  entity_name :: "string option"

definition Entity_to_dict :: "Entity \<Rightarrow> pydict" where
  "Entity_to_dict e =
     [(''type'', PStr (entity_type e)), (''uuid'', PStr (entity_uuid e))] @
     opt_entry ''name'' (map_option PStr (entity_name e))"

text \<open>
  The component classes, one constructor each; \<open>base\<close> holds the four attributes that
  \<open>AnyComponent.__init__\<close> assigns (\<open>_color\<close>, \<open>_char_attribute\<close>, \<open>_hover_event\<close>,
  \<open>_click_event\<close>). A \<open>HoverEvent\<close> object has the attribute \<open>_contents\<close> (absent:
  \<open>None\<close>), the attribute \<open>contents\<close> (absent: \<open>None\<close>) and \<open>_action\<close>; what
  \<open>_contents\<close> can hold is a \<open>TextComponent\<close> (its text and base), an \<open>Item\<close> or an
  \<open>Entity\<close>.
\<close>

datatype base =
    Base (priv_color: "string option") (priv_char_attribute: "StringFormat option")
         (priv_hover_event: "HoverEvent option") (priv_click_event: "ClickEvent option")
and HoverEvent =
    HoverEvent (priv_contents: "hover_contents option") (pub_contents: "Item option")
               (priv_action: HoverAction)
and hover_contents =
    ContentsText string base
  | ContentsItem Item
  | ContentsEntity Entity

datatype component =
    RawComponent pyval
  | AnyComponent base
  | TextComponent string base
  | TranslatableComponent string "string option" "component option" base
  | ScoreComponent string string base
  | EntityComponent string "component option" base
  | KeybindComponent pyval base
  | NbtComponent pydict base

text \<open>What a caller can pass where the source inspects the argument's type at run time.\<close>

record Page =
  content :: "pyval list"

datatype pyobj =
    OComponent component
  | OItem Item
  | OEntity Entity
  | OPage Page
  | OSeq "pyobj list"
  | OVal pyval

section \<open>Construction\<close>

definition COLOR :: "string list" where
  "COLOR = [''black'', ''dark_blue'', ''dark_green'', ''dark_red'', ''dark_purple'', ''gold'',
            ''gray'', ''dark_gray'', ''blue'', ''green'', ''aqua'', ''red'', ''light_purple'',
            ''yellow'', ''white'']"

definition hexdigits :: string where
  "hexdigits = ''0123456789abcdefABCDEF''"

definition startswith :: "string \<Rightarrow> string \<Rightarrow> bool" where
  "startswith s prefix = (take (length prefix) s = prefix)"

text \<open>
  \<open>AnyComponent.__init__\<close>. The colour argument is any value: anything but a \<open>str\<close> or
  \<open>None\<close> is refused under the token \<open>'Unknown Color'\<close>. \<open>color[1:]\<close> is \<open>tl\<close>.
\<close>

definition AnyComponent_init ::
  "pyval \<Rightarrow> StringFormat option \<Rightarrow> HoverEvent option \<Rightarrow> ClickEvent option \<Rightarrow> error + base" where
  "AnyComponent_init color attribute hover_event click_event =
     (case color of
        PNone \<Rightarrow> Inr (Base None attribute hover_event click_event)
      | PStr s \<Rightarrow>
          (if startswith s ''#'' then
             (if length s \<noteq> 7 then Inl (ValueError_color s)
              else if \<not> list_all (\<lambda>ch. ch \<in> set hexdigits) (tl s) then Inl (ValueError_color s)
              else Inr (Base (Some s) attribute hover_event click_event))
           else if s \<notin> set COLOR then Inl (ValueError_color s)
           else Inr (Base (Some s) attribute hover_event click_event))
      | _ \<Rightarrow> Inl (ValueError_color ''Unknown Color''))"

text \<open>Each subclass stores its own fields, then calls \<open>super().__init__\<close>.\<close>

definition with_base :: "(base \<Rightarrow> component) \<Rightarrow> error + base \<Rightarrow> error + component" where
  "with_base mk r = (case r of Inl e \<Rightarrow> Inl e | Inr b \<Rightarrow> Inr (mk b))"


definition TranslatableComponent_init ::
  "string \<Rightarrow> pyval \<Rightarrow> StringFormat option \<Rightarrow> HoverEvent option \<Rightarrow> ClickEvent option
     \<Rightarrow> string option \<Rightarrow> component option \<Rightarrow> error + component" where
  "TranslatableComponent_init translate color attribute hover_event click_event fallback with_json =
     with_base (TranslatableComponent translate fallback with_json)
       (AnyComponent_init color attribute hover_event click_event)"

definition ScoreComponent_init ::
  "string \<Rightarrow> string \<Rightarrow> pyval \<Rightarrow> StringFormat option \<Rightarrow> HoverEvent option \<Rightarrow> ClickEvent option
     \<Rightarrow> error + component" where
  "ScoreComponent_init name objective color attribute hover_event click_event =
     with_base (ScoreComponent name objective)
       (AnyComponent_init color attribute hover_event click_event)"

definition EntityComponent_init ::
  "string \<Rightarrow> pyval \<Rightarrow> StringFormat option \<Rightarrow> HoverEvent option \<Rightarrow> ClickEvent option
     \<Rightarrow> component option \<Rightarrow> error + component" where
  "EntityComponent_init selector color attribute hover_event click_event separator =
     with_base (EntityComponent selector separator)
       (AnyComponent_init color attribute hover_event click_event)"


definition NbtComponent_init ::
  "pydict \<Rightarrow> pyval \<Rightarrow> StringFormat option \<Rightarrow> HoverEvent option \<Rightarrow> ClickEvent option
     \<Rightarrow> error + component" where
  "NbtComponent_init nbt color attribute hover_event click_event =
     with_base (NbtComponent nbt) (AnyComponent_init color attribute hover_event click_event)"

text \<open>
  \<open>HoverEvent.__init__\<close>: the \<open>Item\<close> branch assigns \<open>self.contents\<close>, the other two
  assign \<open>self._contents\<close>.
\<close>

fun HoverEvent_init :: "pyobj \<Rightarrow> error + HoverEvent" where
  "HoverEvent_init (OComponent (TextComponent t b)) =
     Inr (HoverEvent (Some (ContentsText t b)) None TEXT)"
| "HoverEvent_init (OItem i) = Inr (HoverEvent None (Some i) ITEM)"
| "HoverEvent_init (OEntity e) = Inr (HoverEvent (Some (ContentsEntity e)) None ENTITY)"
| "HoverEvent_init _ = Inl ValueError_contents"

section \<open>Rendering components\<close>

fun AnyComponent_translate :: "base \<Rightarrow> error + pydict"
  and TextComponent_translate :: "string \<Rightarrow> base \<Rightarrow> error + pydict"
  and HoverEvent_to_dict :: "HoverEvent \<Rightarrow> error + pydict" where
  "AnyComponent_translate (Base col attr hev cev) =
     (let data = (case col of None \<Rightarrow> []
                  | Some s \<Rightarrow> if s = [] then [] else dict_set [] ''color'' (PStr s)) in
      case (case hev of None \<Rightarrow> Inr data
            | Some h \<Rightarrow> (case HoverEvent_to_dict h of Inl e \<Rightarrow> Inl e
                         | Inr m \<Rightarrow> Inr (dict_set data ''hoverEvent'' (PDict m)))) of
        Inl e \<Rightarrow> Inl e
      | Inr data \<Rightarrow>
          (let data = (case cev of None \<Rightarrow> data
                       | Some c \<Rightarrow> dict_set data ''clickEvent'' (PDict (ClickEvent_to_dict c))) in
           case attr of None \<Rightarrow> Inr data
           | Some a \<Rightarrow> Inr (dict_merge data (StringFormat_to_dict a))))"
| "TextComponent_translate t b =
     (case AnyComponent_translate b of Inl e \<Rightarrow> Inl e
      | Inr d \<Rightarrow> Inr (dict_merge d [(''text'', PStr t), (''type'', PStr ''text'')]))"
| "HoverEvent_to_dict (HoverEvent pc c a) =
     (case pc of
        None \<Rightarrow> Inl AttributeError_contents
      | Some (ContentsText t b) \<Rightarrow>
          (case TextComponent_translate t b of Inl e \<Rightarrow> Inl e
           | Inr m \<Rightarrow> Inr [(''action'', PStr (HoverAction_value a)), (''contents'', PDict m)])
      | Some (ContentsItem i) \<Rightarrow>
          Inr [(''action'', PStr (HoverAction_value a)), (''contents'', PDict (Item_to_dict i))]
      | Some (ContentsEntity e) \<Rightarrow>
          Inr [(''action'', PStr (HoverAction_value a)), (''contents'', PDict (Entity_to_dict e))])"

text \<open>
  \<open>TranslatableComponent.self_translate\<close> fills a local \<open>data\<close> from the fallback and
  the rendered \<open>with_json\<close> and ends without a \<open>return\<close>: its value is \<open>None\<close>.
\<close>

definition self_translate :: "string option \<Rightarrow> pyval option \<Rightarrow> pydict option" where
  "self_translate fallback with_rendered =
     (let data = [];
          data = (case fallback of None \<Rightarrow> data
                  | Some f \<Rightarrow> if f = [] then data else dict_set data ''fallback'' (PStr f));
          data = (case with_rendered of None \<Rightarrow> data | Some m \<Rightarrow> dict_set data ''with'' m)
      in None)"

fun translate :: "component \<Rightarrow> error + pyval" where
  "translate (RawComponent raw) = Inr raw"
| "translate (AnyComponent b) =
     (case AnyComponent_translate b of Inl e \<Rightarrow> Inl e | Inr d \<Rightarrow> Inr (PDict d))"
| "translate (TextComponent t b) =
     (case TextComponent_translate t b of Inl e \<Rightarrow> Inl e | Inr d \<Rightarrow> Inr (PDict d))"
| "translate (TranslatableComponent t fallback with_json b) =
     (case AnyComponent_translate b of Inl e \<Rightarrow> Inl e
      | Inr d \<Rightarrow>
          (case (case with_json of None \<Rightarrow> Inr None
                 | Some c \<Rightarrow> (case translate c of Inl e \<Rightarrow> Inl e | Inr m \<Rightarrow> Inr (Some m))) of
             Inl e \<Rightarrow> Inl e
           | Inr with_rendered \<Rightarrow>
               (case self_translate fallback with_rendered of
                  None \<Rightarrow> Inl TypeError_mapping
                | Some extra \<Rightarrow>
                    Inr (PDict (dict_merge
                      (dict_merge d [(''translate'', PStr t), (''type'', PStr ''translatable'')])
                      extra)))))"
| "translate (ScoreComponent name objective b) =
     (case AnyComponent_translate b of Inl e \<Rightarrow> Inl e
      | Inr d \<Rightarrow>
          Inr (PDict (dict_merge d
            [(''score'', PDict [(''name'', PStr name), (''objective'', PStr objective)]),
             (''type'', PStr ''score'')])))"
| "translate (EntityComponent selector separator b) =
     (case AnyComponent_translate b of Inl e \<Rightarrow> Inl e
      | Inr d \<Rightarrow>
          (let data = dict_merge d [(''type'', PStr ''selector''), (''selector'', PStr selector)] in
           case separator of None \<Rightarrow> Inr (PDict data)
           | Some c \<Rightarrow> (case translate c of Inl e \<Rightarrow> Inl e
                        | Inr m \<Rightarrow> Inr (PDict (dict_set data ''seperator'' m)))))"
| "translate (KeybindComponent keybind b) =
     (case AnyComponent_translate b of Inl e \<Rightarrow> Inl e
      | Inr d \<Rightarrow> Inr (PDict (dict_merge d [(''keybind'', keybind), (''type'', PStr ''keybind'')])))"
| "translate (NbtComponent nbt b) =
     (case AnyComponent_translate b of Inl e \<Rightarrow> Inl e
      | Inr d \<Rightarrow> Inr (PDict (dict_merge (dict_merge d [(''type'', PStr ''keybind'')]) nbt)))"

section \<open>Pages\<close>

fun isinstance_BaseComponent :: "pyobj \<Rightarrow> bool" where
  "isinstance_BaseComponent (OComponent c) = True"
| "isinstance_BaseComponent _ = False"

fun isinstance_Page :: "pyobj \<Rightarrow> bool" where
  "isinstance_Page (OPage p) = True"
| "isinstance_Page _ = False"

text \<open>Lists, tuples and strings are the \<open>Sequence\<close>s; a mapping or a number is not.\<close>

fun isinstance_Sequence :: "pyobj \<Rightarrow> bool" where
  "isinstance_Sequence (OSeq xs) = True"
| "isinstance_Sequence (OVal (PStr s)) = True"
| "isinstance_Sequence (OVal (PList vs)) = True"
| "isinstance_Sequence _ = False"

text \<open>What \<open>for item in data\<close> yields: a string yields its one-character strings.\<close>

fun iter :: "pyobj \<Rightarrow> pyobj list" where
  "iter (OSeq xs) = xs"
| "iter (OVal (PStr s)) = map (\<lambda>ch. OVal (PStr [ch])) s"
| "iter (OVal (PList vs)) = map OVal vs"
| "iter _ = []"

definition is_sequence_component :: "pyobj \<Rightarrow> bool" where
  "is_sequence_component data =
     (if \<not> isinstance_Sequence data then False
      else list_all isinstance_BaseComponent (iter data))"

definition is_sequence_page :: "pyobj \<Rightarrow> bool" where
  "is_sequence_page data =
     (if \<not> isinstance_Sequence data then False
      else list_all isinstance_Page (iter data))"

text \<open>
  A mutating method returns the exception it raised, if any, and the object's state at
  that moment. \<open>append_translated\<close> is \<open>self._content.append(x.translate())\<close>.
\<close>

fun append_translated :: "pyobj \<Rightarrow> Page \<Rightarrow> error option \<times> Page" where
  "append_translated (OComponent c) p =
     (case translate c of Inl e \<Rightarrow> (Some e, p)
      | Inr m \<Rightarrow> (None, p\<lparr>content := content p @ [m]\<rparr>))"
| "append_translated _ p = (Some AttributeError_translate, p)"

fun append_each :: "pyobj list \<Rightarrow> Page \<Rightarrow> error option \<times> Page" where
  "append_each [] p = (None, p)"
| "append_each (x # xs) p =
     (case append_translated x p of
        (Some e, p') \<Rightarrow> (Some e, p')
      | (None, p') \<Rightarrow> append_each xs p')"

definition add_component :: "Page \<Rightarrow> pyobj \<Rightarrow> error option \<times> Page" where
  "add_component p other =
     (if \<not> (isinstance_BaseComponent other \<or> isinstance_Sequence other)
      then (Some ValueError_supply, p)
      else
        (case (if isinstance_BaseComponent other then append_translated other p else (None, p)) of
           (Some e, p1) \<Rightarrow> (Some e, p1)
         | (None, p1) \<Rightarrow>
             (if isinstance_Sequence other then
                (if \<not> is_sequence_component other then (Some ValueError_element, p1)
                 else append_each (iter other) p1)
              else (None, p1))))"

text \<open>\<open>for component in content: self.add_component(component)\<close>\<close>

fun add_components :: "pyobj list \<Rightarrow> Page \<Rightarrow> error option \<times> Page" where
  "add_components [] p = (None, p)"
| "add_components (x # xs) p =
     (case add_component p x of
        (Some e, p') \<Rightarrow> (Some e, p')
      | (None, p') \<Rightarrow> add_components xs p')"

definition Page_init :: "pyobj list option \<Rightarrow> error + Page" where
  "Page_init cont =
     (let p = \<lparr>content = [PStr []]\<rparr> in
      case cont of
        None \<Rightarrow> Inr p
      | Some xs \<Rightarrow>
          (if xs = [] then Inr p
           else (case add_components xs p of
                   (Some e, p') \<Rightarrow> Inl e
                 | (None, p') \<Rightarrow> Inr p')))"

definition Page_iadd :: "Page \<Rightarrow> pyobj \<Rightarrow> error option \<times> Page" where
  "Page_iadd p other = add_component p other"

text \<open>
  \<open>Page.__add__\<close> hands the receiver's \<open>_content\<close>, a list of rendered values, to the
  constructor, then adds to the new page. The receiver's state is not touched; the result is
  the new page or the exception.
\<close>

definition Page_add :: "Page \<Rightarrow> pyobj \<Rightarrow> error + Page" where
  "Page_add p other =
     (case Page_init (Some (map OVal (content p))) of
        Inl e \<Rightarrow> Inl e
      | Inr left \<Rightarrow>
          (case add_component left other of
             (Some e, left') \<Rightarrow> Inl e
           | (None, left') \<Rightarrow> Inr left'))"

definition Page_len :: "Page \<Rightarrow> int" where
  "Page_len p = int (length (content p)) - 1"

text \<open>\<open>s.replace(a, b)\<close> for one-character \<open>a\<close> and \<open>b\<close>.\<close>

primrec replace_char :: "char \<Rightarrow> char \<Rightarrow> string \<Rightarrow> string" where
  "replace_char a b [] = []"
| "replace_char a b (c # cs) = (if c = a then b else c) # replace_char a b cs"

definition Page_translate :: "Page \<Rightarrow> string" where
  "Page_translate p = replace_char sq dq (py_repr (PList (content p)))"

section \<open>Books\<close>

record Book =
  author :: string
  title :: string
  pages :: "Page list"

text \<open>An argument that the call leaves out is \<open>None\<close>; \<open>author\<close> and \<open>title\<close> have no default.\<close>

definition Book_init :: "string option \<Rightarrow> string option \<Rightarrow> Page list option \<Rightarrow> error + Book" where
  "Book_init a t ps =
     (case (a, t) of
        (Some a', Some t') \<Rightarrow>
          Inr \<lparr>author = a', title = t',
               pages = (case ps of None \<Rightarrow> [] | Some xs \<Rightarrow> if xs = [] then [] else xs)\<rparr>
      | _ \<Rightarrow> Inl TypeError_arguments)"

fun append_page :: "pyobj \<Rightarrow> Book \<Rightarrow> Book" where
  "append_page (OPage p) b = b\<lparr>pages := pages b @ [p]\<rparr>"
| "append_page _ b = b"

definition add_page :: "Book \<Rightarrow> pyobj \<Rightarrow> error option \<times> Book" where
  "add_page b page =
     (if \<not> (isinstance_Page page \<or> isinstance_Sequence page)
      then (Some ValueError_supply, b)
      else
        (let b1 = (if isinstance_Page page then append_page page b else b) in
         if isinstance_Sequence page then
           (if \<not> is_sequence_page page then (Some ValueError_element, b1)
            else (None, fold append_page (iter page) b1))
         else (None, b1)))"

definition Book_len :: "Book \<Rightarrow> int" where
  "Book_len b = int (length (pages b))"

definition Book_iadd :: "Book \<Rightarrow> pyobj \<Rightarrow> error option \<times> Book" where
  "Book_iadd b other = add_page b other"

text \<open>\<open>Book.__add__\<close> calls \<open>Book(pages=self._pages)\<close>.\<close>

definition Book_add :: "Book \<Rightarrow> pyobj \<Rightarrow> error + Book" where
  "Book_add b other =
     (case Book_init None None (Some (pages b)) of
        Inl e \<Rightarrow> Inl e
      | Inr left \<Rightarrow>
          (case add_page left other of
             (Some e, left') \<Rightarrow> Inl e
           | (None, left') \<Rightarrow> Inr left'))"

definition Book_translate :: "Book \<Rightarrow> string" where
  "Book_translate b =
     ''{'' @ (''author:'' @ [dq] @ author b @ [dq] @ '', title: '' @ [dq] @ title b @ [dq] @
             '', pages: '' @ py_repr (PList (map (\<lambda>p. PStr (Page_translate p)) (pages b)))) @ ''}''"

definition item :: "Book \<Rightarrow> string" where
  "item b = ''minecraft:written_book'' @ Book_translate b"

definition give_cmd :: "Book \<Rightarrow> string \<Rightarrow> int \<Rightarrow> string" where
  "give_cmd b selector count = ''/give '' @ selector @ '' '' @ item b @ '' '' @ str_int count"

section \<open>Notions used in the statements\<close>

subsection \<open>The type tests of \<open>HoverEvent.__init__\<close>\<close>

fun isinstance_TextComponent :: "pyobj \<Rightarrow> bool" where
  "isinstance_TextComponent (OComponent (TextComponent t b)) = True"
| "isinstance_TextComponent _ = False"

fun isinstance_Item :: "pyobj \<Rightarrow> bool" where
  "isinstance_Item (OItem i) = True"
| "isinstance_Item _ = False"

fun isinstance_Entity :: "pyobj \<Rightarrow> bool" where
  "isinstance_Entity (OEntity e) = True"
| "isinstance_Entity _ = False"

subsection \<open>Colour tokens, in the specification's words\<close>

text \<open>
  A hexadecimal digit of either case, by its code point; a token of seven characters, \<open>#\<close>
  and six such digits; a valid token is \<open>None\<close>, a name of the palette or such a string.
\<close>

definition hex_digit :: "char \<Rightarrow> bool" where
  "hex_digit ch =
     (let n = (of_char ch :: nat) in
      (48 \<le> n \<and> n \<le> 57) \<or> (97 \<le> n \<and> n \<le> 102) \<or> (65 \<le> n \<and> n \<le> 70))"

definition rgb_token :: "string \<Rightarrow> bool" where
  "rgb_token s = (length s = 7 \<and> hd s = CHR ''#'' \<and> list_all hex_digit (tl s))"

fun valid_color :: "pyval \<Rightarrow> bool" where
  "valid_color PNone = True"
| "valid_color (PStr s) = (s \<in> set COLOR \<or> rgb_token s)"
| "valid_color _ = False"





subsection \<open>Counting what a call appends\<close>

text \<open>
  A component that renders, and the number of components a call to \<open>add_component\<close>
  appends: one for a component that renders; for a sequence of components, those before the
  first that fails to render; none for anything else.
\<close>

fun renders :: "pyobj \<Rightarrow> bool" where
  "renders (OComponent c) = (\<not> isl (translate c))"
| "renders _ = False"

definition appended :: "pyobj \<Rightarrow> nat" where
  "appended other =
     (if isinstance_BaseComponent other then (if renders other then 1 else 0)
      else if is_sequence_component other then length (takeWhile renders (iter other))
      else 0)"

text \<open>A caller making the calls one after the other, going on after an exception.\<close>

definition perform :: "pyobj list \<Rightarrow> Page \<Rightarrow> Page" where
  "perform calls p = fold (\<lambda>other q. snd (add_component q other)) calls p"

subsection \<open>The double-quoted textual form\<close>

text \<open>
  The page encoding of the specification: the textual form of a value in which every
  string literal stands between double quotes, a double quote or a backslash inside it
  being escaped with a backslash.
\<close>

definition dq_repr_str :: "string \<Rightarrow> string" where
  "dq_repr_str s = dq # concat (map (escape_char dq) s) @ [dq]"

fun dq_repr :: "pyval \<Rightarrow> string" where
  "dq_repr PNone = ''None''"
| "dq_repr (PBool b) = (if b then ''True'' else ''False'')"
| "dq_repr (PInt i) = str_int i"
| "dq_repr (PStr s) = dq_repr_str s"
| "dq_repr (PList xs) = ''['' @ join '', '' (map dq_repr xs) @ '']''"
| "dq_repr (PDict kvs) =
     ''{'' @ join '', '' (map (\<lambda>kv. dq_repr_str (fst kv) @ '': '' @ dq_repr (snd kv)) kvs) @ ''}''"

text \<open>Every string inside a value, keys included, satisfies \<open>P\<close>.\<close>

fun all_strings :: "(string \<Rightarrow> bool) \<Rightarrow> pyval \<Rightarrow> bool" where
  "all_strings P (PStr s) = P s"
| "all_strings P (PList xs) = list_all (all_strings P) xs"
| "all_strings P (PDict kvs) = list_all (\<lambda>kv. P (fst kv) \<and> all_strings P (snd kv)) kvs"
| "all_strings P _ = True"

definition no_single_quote :: "Page \<Rightarrow> bool" where
  "no_single_quote p = list_all (all_strings (\<lambda>s. sq \<notin> set s)) (content p)"

definition no_quote :: "Page \<Rightarrow> bool" where
  "no_quote p = list_all (all_strings (\<lambda>s. sq \<notin> set s \<and> dq \<notin> set s)) (content p)"

section \<open>Colour tokens\<close>

lemma char_of_eq_nat: "(char_of (n::nat) = c) = (n mod 256 = of_char c)"
  by (metis of_char_of char_of_char)

lemma hex_digit_iff: "ch \<in> set hexdigits \<longleftrightarrow> hex_digit ch"
proof
  assume "ch \<in> set hexdigits"
  then show "hex_digit ch" by (auto simp: hexdigits_def hex_digit_def)
next
  assume h: "hex_digit ch"
  define n where "n = (of_char ch :: nat)"
  have c: "ch = char_of n" by (simp add: n_def)
  from h have "n \<in> {48,49,50,51,52,53,54,55,56,57,97,98,99,100,101,102,65,66,67,68,69,70}"
    unfolding hex_digit_def n_def Let_def by (simp; arith)
  then show "ch \<in> set hexdigits" unfolding c hexdigits_def by (auto simp: char_of_eq_nat)
qed

lemma startswith_hash: "startswith s ''#'' \<longleftrightarrow> s \<noteq> [] \<and> hd s = CHR ''#''"
  by (cases s) (auto simp: startswith_def)

lemma palette_no_hash: "s \<in> set COLOR \<Longrightarrow> \<not> startswith s ''#''"
  by (auto simp: COLOR_def startswith_def)

lemma AnyComponent_init_accepts:
  "(\<exists>b. AnyComponent_init color attribute hev cev = Inr b) \<longleftrightarrow> valid_color color"
  by (cases color)
     (auto simp: AnyComponent_init_def rgb_token_def startswith_hash list_all_iff hex_digit_iff
        dest: palette_no_hash)

lemma AnyComponent_init_rejects:
  "\<not> valid_color color \<Longrightarrow> \<exists>t. AnyComponent_init color attribute hev cev = Inl (ValueError_color t)"
  by (cases color)
     (auto simp: AnyComponent_init_def rgb_token_def startswith_hash list_all_iff hex_digit_iff)

lemma palette_nonempty: "s \<in> set COLOR \<Longrightarrow> s \<noteq> []"
  by (auto simp: COLOR_def)

lemma AnyComponent_init_str:
  "valid_color (PStr s) \<Longrightarrow> AnyComponent_init (PStr s) attribute hev cev = Inr (Base (Some s) attribute hev cev) \<and> s \<noteq> []"
  by (auto simp: AnyComponent_init_def rgb_token_def startswith_hash list_all_iff hex_digit_iff
        dest: palette_no_hash palette_nonempty)

section \<open>The exceptions of rendering\<close>

lemma AnyComponent_translate_error:
  "AnyComponent_translate b = Inl e \<Longrightarrow> e = AttributeError_contents"
  "TextComponent_translate t b = Inl e \<Longrightarrow> e = AttributeError_contents"
  "HoverEvent_to_dict h = Inl e \<Longrightarrow> e = AttributeError_contents"
  by (induction b and t b and h arbitrary: e and e and e
        rule: AnyComponent_translate_TextComponent_translate_HoverEvent_to_dict.induct)
     (auto simp: Let_def split: sum.splits option.splits hover_contents.splits)

lemma translate_error:
  "translate c = Inl e \<Longrightarrow> e = AttributeError_contents \<or> e = TypeError_mapping"
  by (induction c arbitrary: e rule: translate.induct)
     (auto simp: Let_def dest: AnyComponent_translate_error split: sum.splits option.splits)

section \<open>Appending to a page\<close>

lemma append_translated_renders:
  "renders x \<Longrightarrow> \<exists>m. append_translated x p = (None, p\<lparr>content := content p @ [m]\<rparr>)"
  by (cases x) (auto split: sum.splits)

lemma append_translated_fails:
  "\<not> renders x \<Longrightarrow> \<exists>e. append_translated x p = (Some e, p)"
  by (cases x) (auto split: sum.splits)

lemma append_translated_error:
  "isinstance_BaseComponent x \<Longrightarrow> append_translated x p = (Some e, p') \<Longrightarrow>
     e = AttributeError_contents \<or> e = TypeError_mapping"
  by (cases x) (auto split: sum.splits dest: translate_error)

lemma append_each_content:
  "\<exists>ms. content (snd (append_each xs p)) = content p @ ms \<and>
        length ms = length (takeWhile renders xs)"
proof (induction xs arbitrary: p)
  case Nil
  then show ?case by simp
next
  case (Cons x xs)
  show ?case
  proof (cases "renders x")
    case True
    then obtain m where m: "append_translated x p = (None, p\<lparr>content := content p @ [m]\<rparr>)"
      using append_translated_renders by blast
    from Cons.IH [of "p\<lparr>content := content p @ [m]\<rparr>"] obtain ms where
      "content (snd (append_each xs (p\<lparr>content := content p @ [m]\<rparr>))) = (content p @ [m]) @ ms"
      "length ms = length (takeWhile renders xs)" by auto
    with m True show ?thesis by (intro exI [of _ "m # ms"]) simp
  next
    case False
    then obtain e where "append_translated x p = (Some e, p)"
      using append_translated_fails by blast
    with False show ?thesis by simp
  qed
qed

lemma append_each_error:
  "list_all isinstance_BaseComponent xs \<Longrightarrow> append_each xs p = (Some e, p') \<Longrightarrow>
     e = AttributeError_contents \<or> e = TypeError_mapping"
proof (induction xs arbitrary: p)
  case Nil
  then show ?case by simp
next
  case (Cons x xs)
  then show ?case
    by (auto split: prod.splits option.splits dest: append_translated_error)
qed

lemma component_not_sequence:
  "isinstance_BaseComponent x \<Longrightarrow> \<not> isinstance_Sequence x"
  by (cases x) auto

lemma add_component_content:
  "\<exists>ms. content (snd (add_component p other)) = content p @ ms \<and> length ms = appended other"
proof (cases "isinstance_BaseComponent other")
  case True
  then have ns: "\<not> isinstance_Sequence other" by (rule component_not_sequence)
  show ?thesis
  proof (cases "renders other")
    case r: True
    then obtain m where "append_translated other p = (None, p\<lparr>content := content p @ [m]\<rparr>)"
      using append_translated_renders by blast
    with True ns r show ?thesis by (simp add: add_component_def appended_def)
  next
    case r: False
    then obtain e where "append_translated other p = (Some e, p)"
      using append_translated_fails by blast
    with True ns r show ?thesis by (simp add: add_component_def appended_def)
  qed
next
  case False
  show ?thesis
  proof (cases "is_sequence_component other")
    case True
    then have "isinstance_Sequence other" by (auto simp: is_sequence_component_def split: if_splits)
    with False True append_each_content [of "iter other" p] show ?thesis
      by (simp add: add_component_def appended_def)
  next
    case nsc: False
    with False show ?thesis by (simp add: add_component_def appended_def)
  qed
qed

lemma add_component_len:
  "Page_len (snd (add_component p other)) = Page_len p + int (appended other)"
  using add_component_content [of p other] by (auto simp: Page_len_def)

lemma perform_len:
  "Page_len (perform calls p) = Page_len p + int (sum_list (map appended calls))"
  unfolding perform_def
  by (induction calls arbitrary: p) (simp_all add: add_component_len)

lemma add_component_invalid:
  "\<not> isinstance_BaseComponent other \<Longrightarrow> \<not> is_sequence_component other \<Longrightarrow>
     add_component p other =
       (Some (if isinstance_Sequence other then ValueError_element else ValueError_supply), p)"
  by (simp add: add_component_def)

section \<open>The colour in a rendered mapping\<close>


lemma dict_get_Nil: "dict_get [] k = None"
  by (simp add: dict_get_def)







lemma with_base_accepts:
  "(\<exists>cmp. with_base mk (AnyComponent_init color a h c) = Inr cmp) \<longleftrightarrow> valid_color color"
  using AnyComponent_init_accepts [of color a h c]
  by (auto simp: with_base_def split: sum.splits)

lemma with_base_rejects:
  "\<not> valid_color color \<Longrightarrow>
     \<exists>t. with_base mk (AnyComponent_init color a h c) = Inl (ValueError_color t)"
  using AnyComponent_init_rejects [of color a h c]
  by (auto simp: with_base_def)

section \<open>Quote normalisation\<close>

lemma replace_char_map: "replace_char a b s = map (\<lambda>c. if c = a then b else c) s"
  by (induction s) simp_all

lemma map_join: "map f (join sep xs) = join (map f sep) (map (map f) xs)"
  by (induction sep xs rule: join.induct) simp_all

lemma digit_char_not_quote: "n < 10 \<Longrightarrow> digit_char n \<noteq> sq"
  by (simp add: digit_char_def char_of_eq_nat)

lemma digits_no_quote: "sq \<notin> set (digits n)"
proof (induction n rule: digits.induct)
  case (1 n)
  show ?case
  proof (cases "n < 10")
    case True
    then show ?thesis using digit_char_not_quote [of n] by (simp add: digits.simps [of n])
  next
    case False
    moreover have "digit_char (n mod 10) \<noteq> sq" by (rule digit_char_not_quote) simp
    ultimately show ?thesis using 1 by (simp add: digits.simps [of n])
  qed
qed

lemma str_int_no_quote: "sq \<notin> set (str_int i)"
  by (simp add: str_int_def digits_no_quote)

lemma hex_char_not_quote: "n < 16 \<Longrightarrow> hex_char n \<noteq> sq"
  by (simp add: hex_char_def char_of_eq_nat)

lemma of_char_less_256: "(of_char c :: nat) < 256"
  by (metis nat_of_char_less_256)

lemma hex_escape_no_quote: "sq \<notin> set (hex_escape c)"
proof -
  have "(of_char c :: nat) div 16 < 16"
    using of_char_less_256 [of c] less_mult_imp_div_less [of "of_char c" 16 16] by simp
  moreover have "(of_char c :: nat) mod 16 < 16" by simp
  ultimately have "hex_char (of_char c div 16) \<noteq> sq" "hex_char (of_char c mod 16) \<noteq> sq"
    using hex_char_not_quote by blast+
  then show ?thesis by (auto simp: hex_escape_def)
qed

lemma escape_char_no_quote: "c \<noteq> sq \<Longrightarrow> sq \<notin> set (escape_char q c)"
  using hex_escape_no_quote [of c] by (auto simp: escape_char_def Let_def)

lemma escape_char_quote_free:
  "c \<noteq> sq \<Longrightarrow> c \<noteq> dq \<Longrightarrow> escape_char sq c = escape_char dq c"
  by (simp add: escape_char_def)

lemma map_id_no_quote:
  "sq \<notin> set s \<Longrightarrow> map (\<lambda>c. if c = sq then dq else c) s = s"
  by (induction s) auto

lemma escaped_body:
  "sq \<notin> set s \<Longrightarrow> dq \<notin> set s \<Longrightarrow>
     map (\<lambda>c. if c = sq then dq else c) (concat (map (escape_char sq) s)) =
     concat (map (escape_char dq) s)"
proof (induction s)
  case Nil
  then show ?case by simp
next
  case (Cons c s)
  then have "c \<noteq> sq" "c \<noteq> dq" by auto
  then have "map (\<lambda>c. if c = sq then dq else c) (escape_char sq c) = escape_char dq c"
    using escape_char_no_quote [of c sq] escape_char_quote_free [of c]
    by (simp add: map_id_no_quote)
  with Cons show ?case by simp
qed

lemma repr_str_normalised:
  "sq \<notin> set s \<Longrightarrow> dq \<notin> set s \<Longrightarrow>
     map (\<lambda>c. if c = sq then dq else c) (repr_str s) = dq_repr_str s"
  by (simp add: repr_str_def choose_quote_def dq_repr_str_def escaped_body Let_def)

lemma py_repr_normalised:
  "all_strings (\<lambda>s. sq \<notin> set s \<and> dq \<notin> set s) v \<Longrightarrow>
     map (\<lambda>c. if c = sq then dq else c) (py_repr v) = dq_repr v"
proof (induction v rule: py_repr.induct)
  case 1
  then show ?case by simp
next
  case (2 b)
  then show ?case by simp
next
  case (3 i)
  then show ?case by (simp add: map_id_no_quote str_int_no_quote)
next
  case (4 s)
  then show ?case by (simp add: repr_str_normalised)
next
  case (5 xs)
  then have items: "map (map (\<lambda>c. if c = sq then dq else c) \<circ> py_repr) xs = map dq_repr xs"
    by (simp add: list_all_iff)
  show ?case by (simp add: map_join items)
next
  case (6 kvs)
  let ?f = "\<lambda>c. if c = sq then dq else c"
  from 6 have items: "map (map ?f) (map (\<lambda>kv. repr_str (fst kv) @ '': '' @ py_repr (snd kv)) kvs) =
      map (\<lambda>kv. dq_repr_str (fst kv) @ '': '' @ dq_repr (snd kv)) kvs"
    by (simp add: list_all_iff repr_str_normalised)
  have lits: "map ?f ''{'' = ''{''" "map ?f ''}'' = ''}''" "map ?f '', '' = '', ''"
    by simp_all
  show ?case
    by (simp only: py_repr.simps dq_repr.simps map_append map_join items lits)
qed

section \<open>The give command of a book with one empty page\<close>

text \<open>
  C1, as the specification words it: for the book with author \<open>A\<close>, title \<open>T\<close> and one
  empty page, \<open>give_cmd('@p', 5)\<close> would be the text with \<open>title:"T"\<close> and with
  \<open>pages:\<close> followed by the list holding the list of the empty string and a trailing
  comma, no blank after either colon. The source does not produce that text.
\<close>

theorem give_cmd_spec_text_counterexample:
  "give_cmd \<lparr>author = ''A'', title = ''T'', pages = [\<lparr>content = [PStr []]\<rparr>]\<rparr> ''@p'' 5 \<noteq>
     ''/give @p minecraft:written_book{author:'' @ [dq] @ ''A'' @ [dq] @
     '', title:'' @ [dq] @ ''T'' @ [dq] @ '', pages:['' @ ''['' @ [dq, dq] @ '', ]'' @ '']} 5''"
  by code_simp

text \<open>
  C1, amended: \<open>Page()\<close> holds the placeholder alone, \<open>Book('A', 'T')\<close> has no page,
  \<open>add_page\<close> stores the page, and \<open>give_cmd('@p', 5)\<close> is exactly
  \<^verbatim>\<open>/give @p minecraft:written_book{author:"A", title: "T", pages: ['[""]']} 5\<close>:
  a blank follows \<open>title:\<close> and \<open>pages:\<close>, and each page is the string of its own
  rendering, written between single quotes.
\<close>

theorem give_cmd_one_empty_page:
  "Page_init None = Inr \<lparr>content = [PStr []]\<rparr> \<and>
   Book_init (Some ''A'') (Some ''T'') None =
     Inr \<lparr>author = ''A'', title = ''T'', pages = []\<rparr> \<and>
   add_page \<lparr>author = ''A'', title = ''T'', pages = []\<rparr> (OPage \<lparr>content = [PStr []]\<rparr>) =
     (None, \<lparr>author = ''A'', title = ''T'', pages = [\<lparr>content = [PStr []]\<rparr>]\<rparr>) \<and>
   give_cmd \<lparr>author = ''A'', title = ''T'', pages = [\<lparr>content = [PStr []]\<rparr>]\<rparr> ''@p'' 5 =
     ''/give @p minecraft:written_book{author:'' @ [dq] @ ''A'' @ [dq] @
     '', title: '' @ [dq] @ ''T'' @ [dq] @
     '', pages: ['' @ [sq] @ ''['' @ [dq, dq] @ '']'' @ [sq] @ '']} 5''"
  by code_simp

section \<open>Rendering a translatable component\<close>

text \<open>
  C2: the specification has \<open>translate\<close> of every \<open>TranslatableComponent\<close> return a
  mapping with the keys \<open>translate\<close> and \<open>type\<close>. In the source \<open>self_translate\<close> has no
  \<open>return\<close>, so the dict display ends in \<open>**None\<close>: rendering raises for every
  translatable component, whatever its fields; for the component built from a translation
  key alone the exception is the \<open>TypeError\<close> of the display.
\<close>

theorem TranslatableComponent_translate_raises:
  "isl (translate (TranslatableComponent t fallback with_json b)) \<and>
   TranslatableComponent_init ''chat.type.text'' PNone None None None None None =
     Inr (TranslatableComponent ''chat.type.text'' None None (Base None None None None)) \<and>
   translate (TranslatableComponent ''chat.type.text'' None None (Base None None None None)) =
     Inl TypeError_mapping"
  by (auto simp: self_translate_def TranslatableComponent_init_def with_base_def
        AnyComponent_init_def split: sum.splits option.splits)

section \<open>Hover events\<close>

text \<open>
  C3, as the specification words it: a hover event can be built from any component, and
  \<open>to_dict\<close> of an event built from an item is the action with the item's mapping. A
  score component is a component, and the constructor refuses it; the event built from an
  item raises in \<open>to_dict\<close>, its \<open>_contents\<close> never having been assigned.
\<close>

theorem HoverEvent_any_component_counterexample:
  "ScoreComponent_init ''n'' ''o'' PNone None None None =
     Inr (ScoreComponent ''n'' ''o'' (Base None None None None)) \<and>
   isinstance_BaseComponent (OComponent (ScoreComponent ''n'' ''o'' (Base None None None None))) \<and>
   HoverEvent_init (OComponent (ScoreComponent ''n'' ''o'' (Base None None None None))) =
     Inl ValueError_contents \<and>
   HoverEvent_init (OItem \<lparr>item_id = ''minecraft:stone'', item_count = None, item_tag = None\<rparr>) =
     Inr (HoverEvent None
            (Some \<lparr>item_id = ''minecraft:stone'', item_count = None, item_tag = None\<rparr>) ITEM) \<and>
   HoverEvent_to_dict
     (HoverEvent None
        (Some \<lparr>item_id = ''minecraft:stone'', item_count = None, item_tag = None\<rparr>) ITEM) =
     Inl AttributeError_contents"
  by code_simp

text \<open>
  C3, amended: construction succeeds exactly when the content is a \<open>TextComponent\<close>, an
  \<open>Item\<close> or an \<open>Entity\<close>, and fails with the invalid-contents error for anything else;
  the action is \<open>show_text\<close>, \<open>show_item\<close>, \<open>show_entity\<close> in that order; \<open>to_dict\<close> of
  an event built from a text component is the action with the component's rendering (or
  the exception that rendering raises), and of an event built from an entity the action
  with the entity's own mapping.
\<close>

theorem HoverEvent_contract:
  "((\<exists>h. HoverEvent_init x = Inr h) \<longleftrightarrow>
      isinstance_TextComponent x \<or> isinstance_Item x \<or> isinstance_Entity x) \<and>
   ((\<forall>h. HoverEvent_init x \<noteq> Inr h) \<longrightarrow> HoverEvent_init x = Inl ValueError_contents) \<and>
   (\<exists>h. HoverEvent_init (OComponent (TextComponent t b)) = Inr h \<and> priv_action h = TEXT \<and>
        HoverEvent_to_dict h =
          (case translate (TextComponent t b) of Inl e \<Rightarrow> Inl e
           | Inr m \<Rightarrow> Inr [(''action'', PStr ''show_text''), (''contents'', m)])) \<and>
   (\<exists>h. HoverEvent_init (OItem i) = Inr h \<and> priv_action h = ITEM \<and>
        HoverAction_value (priv_action h) = ''show_item'') \<and>
   (\<exists>h. HoverEvent_init (OEntity e) = Inr h \<and> priv_action h = ENTITY \<and>
        HoverEvent_to_dict h =
          Inr [(''action'', PStr ''show_entity''), (''contents'', PDict (Entity_to_dict e))])"
proof -
  have accepted: "(\<exists>h. HoverEvent_init x = Inr h) \<longleftrightarrow>
      isinstance_TextComponent x \<or> isinstance_Item x \<or> isinstance_Entity x"
    by (induction x rule: HoverEvent_init.induct) simp_all
  have refused: "(\<forall>h. HoverEvent_init x \<noteq> Inr h) \<longrightarrow> HoverEvent_init x = Inl ValueError_contents"
    by (induction x rule: HoverEvent_init.induct) simp_all
  have rendered: "HoverEvent_to_dict (HoverEvent (Some (ContentsText t b)) None TEXT) =
          (case translate (TextComponent t b) of Inl e \<Rightarrow> Inl e
           | Inr m \<Rightarrow> Inr [(''action'', PStr ''show_text''), (''contents'', m)])"
    by (simp split: sum.splits)
  show ?thesis using accepted refused rendered by simp
qed

theorem HoverEvent_contract_witness:
  "HoverEvent_init (OVal (PInt 3)) = Inl ValueError_contents \<and>
   (\<exists>h. HoverEvent_init (OEntity \<lparr>entity_type = ''minecraft:pig'', entity_uuid = ''0-0-0-0-1'',
                                  entity_name = Some ''Pig''\<rparr>) = Inr h \<and>
        priv_action h = ENTITY \<and>
        HoverEvent_to_dict h =
          Inr [(''action'', PStr ''show_entity''),
               (''contents'', PDict [(''type'', PStr ''minecraft:pig''),
                                     (''uuid'', PStr ''0-0-0-0-1''), (''name'', PStr ''Pig'')])])"
  using HoverEvent_contract [of "OVal (PInt 3)" "''x''" "Base None None None None"
      "\<lparr>item_id = ''minecraft:stone'', item_count = None, item_tag = None\<rparr>"
      "\<lparr>entity_type = ''minecraft:pig'', entity_uuid = ''0-0-0-0-1'', entity_name = Some ''Pig''\<rparr>"]
  by (simp add: Entity_to_dict_def opt_entry_def)

section \<open>The type discriminator\<close>

text \<open>
  C4: every variant but the raw one is to carry its own name under \<open>type\<close>. An
  \<open>NbtComponent\<close> built from the empty mapping renders to the mapping whose \<open>type\<close> is
  \<open>keybind\<close>, the discriminator of \<open>KeybindComponent\<close>, not \<open>nbt\<close>.
\<close>

theorem NbtComponent_type_is_keybind:
  "NbtComponent_init [] PNone None None None =
     Inr (NbtComponent [] (Base None None None None)) \<and>
   translate (NbtComponent [] (Base None None None None)) =
     Inr (PDict [(''type'', PStr ''keybind'')])"
  by code_simp

section \<open>The additive combinators\<close>

text \<open>
  C6: \<open>page + x\<close> and \<open>book + x\<close> are to return a new page or book. \<open>Page.__add__\<close>
  passes the receiver's rendered content to the constructor, which takes the first rendered
  mapping for a component to add and raises: so for the page holding one text component,
  and for every page whose first appended entry is a mapping. \<open>Book.__add__\<close> calls the
  constructor without author and title and raises for every book and argument.
\<close>

theorem add_combinators_raise:
  "Page_init (Some [OComponent (TextComponent ''a'' (Base None None None None))]) =
     Inr \<lparr>content = [PStr [], PDict [(''text'', PStr ''a''), (''type'', PStr ''text'')]]\<rparr> \<and>
   Page_add \<lparr>content = [PStr [], PDict [(''text'', PStr ''a''), (''type'', PStr ''text'')]]\<rparr>
     (OComponent (TextComponent ''b'' (Base None None None None))) = Inl ValueError_supply \<and>
   Page_add \<lparr>content = PStr [] # PDict d # rest\<rparr> other = Inl ValueError_supply \<and>
   Book_add b other' = Inl TypeError_arguments"
proof -
  have book: "Book_add b other' = Inl TypeError_arguments"
    by (simp add: Book_add_def Book_init_def)
  have built: "Page_init (Some [OComponent (TextComponent ''a'' (Base None None None None))]) =
     Inr \<lparr>content = [PStr [], PDict [(''text'', PStr ''a''), (''type'', PStr ''text'')]]\<rparr>"
    by code_simp
  have general: "Page_add \<lparr>content = PStr [] # PDict d # rest\<rparr> other = Inl ValueError_supply"
    by (simp add: Page_add_def Page_init_def add_component_def is_sequence_component_def)
  have one: "Page_add \<lparr>content = [PStr [], PDict [(''text'', PStr ''a''), (''type'', PStr ''text'')]]\<rparr>
     (OComponent (TextComponent ''b'' (Base None None None None))) = Inl ValueError_supply"
    by code_simp
  show ?thesis using book built general one by simp
qed

section \<open>The separator of an entity selector\<close>

text \<open>
  C8: the separator of an entity selector is to be rendered under the key \<open>separator\<close>.
  The source stores it under \<open>seperator\<close>: the rendered mapping of the selector \<open>@a\<close>
  with a text separator has that key and no key \<open>separator\<close>.
\<close>

theorem EntityComponent_separator_key:
  "EntityComponent_init ''@a'' PNone None None None
       (Some (TextComponent '', '' (Base None None None None))) =
     Inr (EntityComponent ''@a'' (Some (TextComponent '', '' (Base None None None None)))
            (Base None None None None)) \<and>
   translate (EntityComponent ''@a'' (Some (TextComponent '', '' (Base None None None None)))
                (Base None None None None)) =
     Inr (PDict [(''type'', PStr ''selector''), (''selector'', PStr ''@a''),
                 (''seperator'', PDict [(''text'', PStr '', ''), (''type'', PStr ''text'')])]) \<and>
   dict_get [(''type'', PStr ''selector''), (''selector'', PStr ''@a''),
             (''seperator'', PDict [(''text'', PStr '', ''), (''type'', PStr ''text'')])]
     ''separator'' = None"
  by code_simp

section \<open>The length of a page\<close>

lemma append_each_all_render:
  "list_all renders xs \<Longrightarrow> fst (append_each xs p) = None"
proof (induction xs arbitrary: p)
  case Nil
  then show ?case by simp
next
  case (Cons x xs)
  then obtain m where "append_translated x p = (None, p\<lparr>content := content p @ [m]\<rparr>)"
    using append_translated_renders [of x p] by auto
  with Cons show ?case by simp
qed

lemma renders_component: "renders x \<Longrightarrow> isinstance_BaseComponent x"
  by (cases x) auto

lemma add_component_batch_ok:
  assumes "isinstance_Sequence other" "list_all renders (iter other)"
  shows "fst (add_component p other) = None \<and> appended other = length (iter other)"
proof -
  from assms(2) have all: "list_all isinstance_BaseComponent (iter other)"
    by (auto simp: list_all_iff dest: renders_component)
  from assms(1) have nc: "\<not> isinstance_BaseComponent other"
    using component_not_sequence by blast
  from assms(2) have tw: "takeWhile renders (iter other) = iter other"
    by (simp add: list_all_iff)
  show ?thesis using assms all nc
    by (simp add: add_component_def appended_def is_sequence_component_def append_each_all_render tw)
qed

lemma add_component_single_ok:
  assumes "renders other"
  shows "fst (add_component p other) = None \<and> appended other = 1"
proof -
  from assms have c: "isinstance_BaseComponent other" by (rule renders_component)
  then have ns: "\<not> isinstance_Sequence other" by (rule component_not_sequence)
  from assms obtain m where "append_translated other p = (None, p\<lparr>content := content p @ [m]\<rparr>)"
    using append_translated_renders by blast
  with c ns assms show ?thesis by (simp add: add_component_def appended_def)
qed

text \<open>
  C5: a fresh page has length 0. A call of \<open>add_component\<close> leaves the earlier content in
  place and extends it by \<open>appended other\<close> entries: one for a component that renders, all
  of them for a sequence of components that render, and so the length after any series of
  calls, single or batch, is the length before plus the number of components appended. A
  call with an argument that is neither a component nor a sequence of components raises the
  type error (\<open>ValueError_supply\<close> for a non-sequence, \<open>ValueError_element\<close> for a sequence
  with a foreign element) and leaves the page exactly as it was: nothing of a mixed batch
  is appended.
\<close>

theorem Page_len_counts_appended:
  "Page_init None = Inr \<lparr>content = [PStr []]\<rparr> \<and>
   Page_len \<lparr>content = [PStr []]\<rparr> = 0 \<and>
   (renders other \<longrightarrow> fst (add_component p other) = None \<and> appended other = 1) \<and>
   (isinstance_Sequence other \<and> list_all renders (iter other) \<longrightarrow>
      fst (add_component p other) = None \<and> appended other = length (iter other)) \<and>
   (\<exists>ms. content (snd (add_component p other)) = content p @ ms \<and> length ms = appended other) \<and>
   Page_len (perform calls p) = Page_len p + int (sum_list (map appended calls)) \<and>
   (\<not> isinstance_BaseComponent other \<and> \<not> is_sequence_component other \<longrightarrow>
      add_component p other =
        (Some (if isinstance_Sequence other then ValueError_element else ValueError_supply), p))"
proof -
  have fresh: "Page_init None = Inr \<lparr>content = [PStr []]\<rparr>"
    by (simp add: Page_init_def)
  have zero: "Page_len \<lparr>content = [PStr []]\<rparr> = 0"
    by (simp add: Page_len_def)
  show ?thesis
    using fresh zero add_component_single_ok [of other p] add_component_batch_ok [of other p]
      add_component_content [of p other] perform_len [of calls p]
      add_component_invalid [of other p]
    by blast
qed

theorem Page_len_counts_appended_witness:
  "Page_len (perform
      [OComponent (TextComponent ''a'' (Base None None None None)),
       OSeq [OComponent (TextComponent ''b'' (Base None None None None)),
             OComponent (ScoreComponent ''n'' ''o'' (Base None None None None))],
       OSeq [OComponent (TextComponent ''c'' (Base None None None None)), OVal (PInt 1)],
       OVal (PInt 3)]
      \<lparr>content = [PStr []]\<rparr>) = 3 \<and>
   add_component \<lparr>content = [PStr []]\<rparr>
      (OSeq [OComponent (TextComponent ''c'' (Base None None None None)), OVal (PInt 1)]) =
     (Some ValueError_element, \<lparr>content = [PStr []]\<rparr>) \<and>
   fst (add_component \<lparr>content = [PStr []]\<rparr>
      (OSeq [OComponent (TextComponent ''b'' (Base None None None None)),
             OComponent (ScoreComponent ''n'' ''o'' (Base None None None None))])) = None"
  using Page_len_counts_appended
    [of "OSeq [OComponent (TextComponent ''c'' (Base None None None None)), OVal (PInt 1)]"
        "\<lparr>content = [PStr []]\<rparr>"
        "[OComponent (TextComponent ''a'' (Base None None None None)),
          OSeq [OComponent (TextComponent ''b'' (Base None None None None)),
                OComponent (ScoreComponent ''n'' ''o'' (Base None None None None))],
          OSeq [OComponent (TextComponent ''c'' (Base None None None None)), OVal (PInt 1)],
          OVal (PInt 3)]"]
    Page_len_counts_appended
    [of "OSeq [OComponent (TextComponent ''b'' (Base None None None None)),
               OComponent (ScoreComponent ''n'' ''o'' (Base None None None None))]"
        "\<lparr>content = [PStr []]\<rparr>" "[]"]
  by (simp add: appended_def is_sequence_component_def Page_len_def)

section \<open>Adding pages to a book\<close>

lemma page_not_sequence: "isinstance_Page x \<Longrightarrow> \<not> isinstance_Sequence x"
  by (cases x) auto

lemma add_page_sequence:
  "isinstance_Sequence x \<Longrightarrow>
     add_page b x =
       (if list_all isinstance_Page (iter x) then (None, fold append_page (iter x) b)
        else (Some ValueError_element, b))"
  using page_not_sequence [of x] by (auto simp: add_page_def is_sequence_page_def Let_def)

lemma add_component_sequence:
  "isinstance_Sequence x \<Longrightarrow>
     add_component p x =
       (if list_all isinstance_BaseComponent (iter x) then append_each (iter x) p
        else (Some ValueError_element, p))"
  using component_not_sequence [of x] by (auto simp: add_component_def is_sequence_component_def)

lemma append_each_no_type_error:
  "list_all isinstance_BaseComponent xs \<Longrightarrow>
     fst (append_each xs p) \<noteq> Some ValueError_element \<and>
     fst (append_each xs p) \<noteq> Some ValueError_supply"
proof (cases "append_each xs p")
  case (Pair r p')
  assume comps: "list_all isinstance_BaseComponent xs"
  show ?thesis
  proof (cases r)
    case None
    with Pair show ?thesis by simp
  next
    case (Some e)
    with Pair comps have "e = AttributeError_contents \<or> e = TypeError_mapping"
      using append_each_error by blast
    with Pair Some show ?thesis by auto
  qed
qed

text \<open>
  C10: for every page and book, \<open>add_component\<close> and \<open>add_page\<close> with an empty sequence,
  the empty string included, raise nothing and return the receiver unchanged. A sequence is
  refused with the type error exactly when it has an element of the wrong kind, so it is
  then non-empty, and the receiver is unchanged; a sequence of the right kind never raises
  a type error. Every non-empty string is refused.
\<close>

theorem empty_sequences_accepted:
  "(isinstance_Sequence x \<and> iter x = [] \<longrightarrow>
      add_component p x = (None, p) \<and> add_page b x = (None, b)) \<and>
   add_component p (OVal (PStr [])) = (None, p) \<and>
   add_page b (OVal (PStr [])) = (None, b) \<and>
   (isinstance_Sequence x \<and> (\<exists>i \<in> set (iter x). \<not> isinstance_BaseComponent i) \<longrightarrow>
      iter x \<noteq> [] \<and> add_component p x = (Some ValueError_element, p)) \<and>
   (isinstance_Sequence x \<and> (\<exists>i \<in> set (iter x). \<not> isinstance_Page i) \<longrightarrow>
      iter x \<noteq> [] \<and> add_page b x = (Some ValueError_element, b)) \<and>
   (isinstance_Sequence x \<and> (\<forall>i \<in> set (iter x). isinstance_BaseComponent i) \<longrightarrow>
      fst (add_component p x) \<noteq> Some ValueError_element \<and>
      fst (add_component p x) \<noteq> Some ValueError_supply) \<and>
   (isinstance_Sequence x \<and> (\<forall>i \<in> set (iter x). isinstance_Page i) \<longrightarrow>
      fst (add_page b x) = None) \<and>
   (s \<noteq> [] \<longrightarrow>
      add_component p (OVal (PStr s)) = (Some ValueError_element, p) \<and>
      add_page b (OVal (PStr s)) = (Some ValueError_element, b))"
proof -
  have str_items: "s \<noteq> [] \<Longrightarrow> \<not> list_all isinstance_BaseComponent (iter (OVal (PStr s))) \<and>
      \<not> list_all isinstance_Page (iter (OVal (PStr s)))"
    by (cases s) simp_all
  have 1: "isinstance_Sequence x \<and> iter x = [] \<longrightarrow>
      add_component p x = (None, p) \<and> add_page b x = (None, b)"
    by (simp add: add_component_sequence add_page_sequence)
  have 2: "add_component p (OVal (PStr [])) = (None, p)" "add_page b (OVal (PStr [])) = (None, b)"
    by (simp_all add: add_component_sequence add_page_sequence)
  have 3: "isinstance_Sequence x \<and> (\<exists>i \<in> set (iter x). \<not> isinstance_BaseComponent i) \<longrightarrow>
      iter x \<noteq> [] \<and> add_component p x = (Some ValueError_element, p)"
    by (auto simp: add_component_sequence list_all_iff)
  have 4: "isinstance_Sequence x \<and> (\<exists>i \<in> set (iter x). \<not> isinstance_Page i) \<longrightarrow>
      iter x \<noteq> [] \<and> add_page b x = (Some ValueError_element, b)"
    by (auto simp: add_page_sequence list_all_iff)
  have 5: "isinstance_Sequence x \<and> (\<forall>i \<in> set (iter x). isinstance_BaseComponent i) \<longrightarrow>
      fst (add_component p x) \<noteq> Some ValueError_element \<and>
      fst (add_component p x) \<noteq> Some ValueError_supply"
    using append_each_no_type_error [of "iter x" p]
    by (simp add: add_component_sequence list_all_iff)
  have 6: "isinstance_Sequence x \<and> (\<forall>i \<in> set (iter x). isinstance_Page i) \<longrightarrow>
      fst (add_page b x) = None"
    by (simp add: add_page_sequence list_all_iff)
  have 7: "s \<noteq> [] \<longrightarrow>
      add_component p (OVal (PStr s)) = (Some ValueError_element, p) \<and>
      add_page b (OVal (PStr s)) = (Some ValueError_element, b)"
    using str_items by (simp add: add_component_sequence add_page_sequence)
  show ?thesis using 1 2 3 4 5 6 7 by blast
qed

theorem empty_sequences_accepted_witness:
  "add_component \<lparr>content = [PStr [], PDict [(''text'', PStr ''a''), (''type'', PStr ''text'')]]\<rparr>
      (OSeq []) =
     (None, \<lparr>content = [PStr [], PDict [(''text'', PStr ''a''), (''type'', PStr ''text'')]]\<rparr>) \<and>
   add_page \<lparr>author = ''A'', title = ''T'', pages = [\<lparr>content = [PStr []]\<rparr>]\<rparr> (OSeq []) =
     (None, \<lparr>author = ''A'', title = ''T'', pages = [\<lparr>content = [PStr []]\<rparr>]\<rparr>) \<and>
   add_component \<lparr>content = [PStr [], PDict [(''text'', PStr ''a''), (''type'', PStr ''text'')]]\<rparr>
      (OVal (PStr ''ab'')) =
     (Some ValueError_element,
      \<lparr>content = [PStr [], PDict [(''text'', PStr ''a''), (''type'', PStr ''text'')]]\<rparr>) \<and>
   add_page \<lparr>author = ''A'', title = ''T'', pages = [\<lparr>content = [PStr []]\<rparr>]\<rparr>
      (OVal (PStr ''ab'')) =
     (Some ValueError_element,
      \<lparr>author = ''A'', title = ''T'', pages = [\<lparr>content = [PStr []]\<rparr>]\<rparr>)"
  using empty_sequences_accepted
    [of "OSeq []"
        "\<lparr>content = [PStr [], PDict [(''text'', PStr ''a''), (''type'', PStr ''text'')]]\<rparr>"
        "\<lparr>author = ''A'', title = ''T'', pages = [\<lparr>content = [PStr []]\<rparr>]\<rparr>" "''ab''"]
  by simp

section \<open>Colour tokens at construction and in the rendering\<close>







section \<open>Rendering a page\<close>

text \<open>
  C9, as the specification words it: the damage that the replacement of quotes does is
  confined to content holding a single quote, so a page without one would render to the
  double-quoted form of its content. The page holding the text component whose text is one
  double quote has no single quote, and its rendering is not that form: the literal is
  closed by the character it holds. Likewise two pages without a single quote, one holding
  the string \<^verbatim>\<open>a", "b\<close> and one holding the strings \<open>a\<close> and \<open>b\<close>, render to the same
  text.
\<close>

theorem quote_damage_counterexample:
  "add_component \<lparr>content = [PStr []]\<rparr>
      (OComponent (TextComponent [dq] (Base None None None None))) =
     (None, \<lparr>content = [PStr [], PDict [(''text'', PStr [dq]), (''type'', PStr ''text'')]]\<rparr>) \<and>
   no_single_quote
     \<lparr>content = [PStr [], PDict [(''text'', PStr [dq]), (''type'', PStr ''text'')]]\<rparr> \<and>
   Page_translate
     \<lparr>content = [PStr [], PDict [(''text'', PStr [dq]), (''type'', PStr ''text'')]]\<rparr> =
     ''['' @ [dq, dq] @ '', {'' @ [dq] @ ''text'' @ [dq] @ '': '' @ [dq, dq, dq] @ '', '' @
     [dq] @ ''type'' @ [dq] @ '': '' @ [dq] @ ''text'' @ [dq] @ ''}]'' \<and>
   Page_translate
     \<lparr>content = [PStr [], PDict [(''text'', PStr [dq]), (''type'', PStr ''text'')]]\<rparr> \<noteq>
     dq_repr (PList [PStr [], PDict [(''text'', PStr [dq]), (''type'', PStr ''text'')]]) \<and>
   no_single_quote \<lparr>content = [PStr [], PStr (''a'' @ [dq] @ '', '' @ [dq] @ ''b'')]\<rparr> \<and>
   no_single_quote \<lparr>content = [PStr [], PStr ''a'', PStr ''b'']\<rparr> \<and>
   Page_translate \<lparr>content = [PStr [], PStr (''a'' @ [dq] @ '', '' @ [dq] @ ''b'')]\<rparr> =
     Page_translate \<lparr>content = [PStr [], PStr ''a'', PStr ''b'']\<rparr>"
  by code_simp

text \<open>
  C9, amended: the rendering of a page is the textual form of its content list, placeholder
  included, with every single quote replaced by a double quote, character for character:
  the two have the same length and the rendering holds no single quote. The damage is
  confined to content holding a single or a double quote: a page none of whose strings holds
  either renders to the double-quoted form of its content.
\<close>

theorem Page_translate_normalises:
  "Page_translate p = map (\<lambda>c. if c = sq then dq else c) (py_repr (PList (content p))) \<and>
   length (Page_translate p) = length (py_repr (PList (content p))) \<and>
   sq \<notin> set (Page_translate p) \<and>
   (no_quote p \<longrightarrow> Page_translate p = dq_repr (PList (content p)))"
proof -
  have form: "Page_translate p = map (\<lambda>c. if c = sq then dq else c) (py_repr (PList (content p)))"
    by (simp only: Page_translate_def replace_char_map)
  have none: "sq \<notin> set (Page_translate p)"
    unfolding form by auto
  have clean: "no_quote p \<longrightarrow> Page_translate p = dq_repr (PList (content p))"
  proof
    assume "no_quote p"
    then have "all_strings (\<lambda>s. sq \<notin> set s \<and> dq \<notin> set s) (PList (content p))"
      by (simp add: no_quote_def)
    then show "Page_translate p = dq_repr (PList (content p))"
      unfolding form by (rule py_repr_normalised)
  qed
  from form none clean show ?thesis by simp
qed

theorem Page_translate_normalises_witness:
  "Page_translate
     \<lparr>content = [PStr [], PDict [(''color'', PStr ''red''), (''text'', PStr ''Hi''),
                                 (''type'', PStr ''text'')]]\<rparr> =
     ''['' @ [dq, dq] @ '', {'' @ [dq] @ ''color'' @ [dq] @ '': '' @ [dq] @ ''red'' @ [dq] @ '', '' @
     [dq] @ ''text'' @ [dq] @ '': '' @ [dq] @ ''Hi'' @ [dq] @ '', '' @
     [dq] @ ''type'' @ [dq] @ '': '' @ [dq] @ ''text'' @ [dq] @ ''}]''"
proof -
  have clean: "no_quote \<lparr>content = [PStr [], PDict [(''color'', PStr ''red''),
      (''text'', PStr ''Hi''), (''type'', PStr ''text'')]]\<rparr>"
    by code_simp
  have form: "dq_repr (PList [PStr [], PDict [(''color'', PStr ''red''),
      (''text'', PStr ''Hi''), (''type'', PStr ''text'')]]) =
     ''['' @ [dq, dq] @ '', {'' @ [dq] @ ''color'' @ [dq] @ '': '' @ [dq] @ ''red'' @ [dq] @ '', '' @
     [dq] @ ''text'' @ [dq] @ '': '' @ [dq] @ ''Hi'' @ [dq] @ '', '' @
     [dq] @ ''type'' @ [dq] @ '': '' @ [dq] @ ''text'' @ [dq] @ ''}]''"
    by code_simp
  have stored: "content \<lparr>content = [PStr [], PDict [(''color'', PStr ''red''),
      (''text'', PStr ''Hi''), (''type'', PStr ''text'')]]\<rparr> =
      [PStr [], PDict [(''color'', PStr ''red''), (''text'', PStr ''Hi''), (''type'', PStr ''text'')]]"
    by simp
  from Page_translate_normalises
    [of "\<lparr>content = [PStr [], PDict [(''color'', PStr ''red''), (''text'', PStr ''Hi''),
                                     (''type'', PStr ''text'')]]\<rparr>"] clean
  have rendered: "Page_translate
     \<lparr>content = [PStr [], PDict [(''color'', PStr ''red''), (''text'', PStr ''Hi''),
                                 (''type'', PStr ''text'')]]\<rparr> =
     dq_repr (PList (content \<lparr>content = [PStr [], PDict [(''color'', PStr ''red''),
       (''text'', PStr ''Hi''), (''type'', PStr ''text'')]]\<rparr>))"
    by blast
  show ?thesis unfolding rendered stored form by (rule refl)
qed

end
